theory Spec2Isabelle
  imports Complex_Main
begin

section \<open>Python values used by \<^verbatim>\<open>src/tkui/tool.py\<close>\<close>

text \<open>
  Exceptions are values. Only the exceptions that the modelled code can raise by itself are
  listed; a collaborator that raises is outside the model unless the source catches it.
\<close>

datatype py_error = ZeroDivisionError | FileNotFoundError | TypeError

text \<open>\<^verbatim>\<open>str(n)\<close> of a non-negative Python int: its decimal digits.\<close>

definition digit_char :: "nat \<Rightarrow> char" where
  "digit_char d = ''0123456789'' ! d"

fun str_nat :: "nat \<Rightarrow> string" where
  "str_nat n = (if n < 10 then [digit_char n] else str_nat (n div 10) @ [digit_char (n mod 10)])"

declare str_nat.simps [simp del]

definition str_int :: "int \<Rightarrow> string" where
  "str_int i = (if i < 0 then CHR ''-'' # str_nat (nat (- i)) else str_nat (nat i))"

text \<open>
  \<^verbatim>\<open>int(x)\<close> of a float truncates towards zero. Floats are modelled by exact rationals:
  every float the modelled code computes is an integer multiple of \<open>1/64\<close> (or of \<open>1/4\<close>),
  which binary64 represents exactly as long as its magnitude stays below \<open>2^46\<close>
  (64 TiB for a byte count).
\<close>

definition py_int :: "rat \<Rightarrow> int" where
  "py_int x = (if 0 \<le> x then \<lfloor>x\<rfloor> else \<lceil>x\<rceil>)"

section \<open>The Size Estimator: \<^verbatim>\<open>GetFolderSize\<close>\<close>







subsection \<open>Patching the resize list: \<^verbatim>\<open>rsizelist\<close>\<close>
















section \<open>The file system\<close>

text \<open>
  The files of the work directory: a map from a path to the bytes of the file there. A
  path is looked up as the operating system resolves it, with repeated slashes read as one
  (the code writes both \<^verbatim>\<open>f"{work}/{part}.img"\<close> and \<^verbatim>\<open>work + part + ".img"\<close> for a work
  path that ends in a slash).
\<close>

type_synonym path = string
type_synonym fs = "path \<rightharpoonup> string"

fun norm_path :: "path \<Rightarrow> path" where
  "norm_path (a # b # cs) =
     (if a = CHR ''/'' \<and> b = CHR ''/'' then norm_path (b # cs) else a # norm_path (b # cs))"
| "norm_path [a] = [a]"
| "norm_path [] = []"

definition os_path_exists :: "fs \<Rightarrow> path \<Rightarrow> bool" where
  "os_path_exists f p = (f (norm_path p) \<noteq> None)"

definition os_path_getsize :: "fs \<Rightarrow> path \<Rightarrow> py_error + nat" where
  "os_path_getsize f p =
     (case f (norm_path p) of None \<Rightarrow> Inl FileNotFoundError | Some bytes \<Rightarrow> Inr (length bytes))"

definition os_remove :: "fs \<Rightarrow> path \<Rightarrow> py_error + fs" where
  "os_remove f p =
     (case f (norm_path p) of
        None \<Rightarrow> Inl FileNotFoundError
      | Some bytes \<Rightarrow> Inr (f(norm_path p := None)))"

definition os_rename :: "fs \<Rightarrow> path \<Rightarrow> path \<Rightarrow> py_error + fs" where
  "os_rename f src dst =
     (case f (norm_path src) of
        None \<Rightarrow> Inl FileNotFoundError
      | Some bytes \<Rightarrow>
          Inr (if norm_path src = norm_path dst then f
               else f(norm_path src := None, norm_path dst \<mapsto> bytes)))"

section \<open>The size check of \<^verbatim>\<open>PackSuper\<close>\<close>

text \<open>
  The fields of the \<^verbatim>\<open>PackSuper\<close> window that \<^verbatim>\<open>start_\<close> and \<^verbatim>\<open>verify_size\<close> read.
  \<open>super_size\<close> is \<open>None\<close> when the entry does not hold an integer
  (\<^verbatim>\<open>self.super_size.get()\<close> raises).
\<close>

record PackSuper =
  super_size :: "int option"
  is_sparse :: bool
  super_type :: int
  attrib :: string
  group_name :: string
  delete_source_file :: int
  block_device_name :: string
  selected :: "string list"
  work :: string

text \<open>\<^verbatim>\<open>sum([os.path.getsize(f"{self.work}/{i}.img") for i in self.tl.selected])\<close>\<close>

fun sum_sizes :: "fs \<Rightarrow> string \<Rightarrow> string list \<Rightarrow> py_error + int" where
  "sum_sizes f wk [] = Inr 0"
| "sum_sizes f wk (i # is) =
     (case os_path_getsize f (wk @ ''/'' @ i @ ''.img'') of
        Inl e \<Rightarrow> Inl e
      | Inr n \<Rightarrow> (case sum_sizes f wk is of Inl e \<Rightarrow> Inl e | Inr s \<Rightarrow> Inr (int n + s)))"

text \<open>
  The loop of \<^verbatim>\<open>verify_size\<close> over \<^verbatim>\<open>range(20)\<close>, with \<^verbatim>\<open>size\<close> and \<^verbatim>\<open>diff_size\<close>;
  it returns \<^verbatim>\<open>size\<close> as the loop leaves it:
  \<^verbatim>\<open>
      for i in range(20):
          if not i:
              continue
          i = i - 0.25
          t = (1024 ** 3) * i - size
          if t < 0:
              continue
          if t < diff_size:
              diff_size = t
          else:
              size = i * (1024 ** 3)
              break
  \<close>
\<close>

fun grow :: "nat list \<Rightarrow> rat \<Rightarrow> rat \<Rightarrow> rat" where
  "grow [] sz diff_size = sz"
| "grow (i # is) sz diff_size =
     (if i = 0 then grow is sz diff_size
      else (let i' = of_nat i - 1 / 4 :: rat;
                t = (1024 ^ 3) * i' - sz
            in if t < 0 then grow is sz diff_size
               else if t < diff_size then grow is sz t
               else i' * (1024 ^ 3)))"

datatype tk_error = TclError | Raised py_error

text \<open>
  \<^verbatim>\<open>verify_size\<close> returns its verdict and the window with \<^verbatim>\<open>super_size\<close> as it is set.
\<close>

definition verify_size :: "PackSuper \<Rightarrow> fs \<Rightarrow> tk_error + bool \<times> PackSuper" where
  "verify_size self f =
     (case sum_sizes f (work self) (selected self) of
        Inl e \<Rightarrow> Inl (Raised e)
      | Inr sz \<Rightarrow>
          (case super_size self of
             None \<Rightarrow> Inl TclError
           | Some requested \<Rightarrow>
               if sz > requested
               then Inr (False, self\<lparr>super_size := Some (py_int (grow [0..<20] (of_int sz) (of_int sz)))\<rparr>)
               else Inr (True, self)))"

text \<open>The arguments \<^verbatim>\<open>start_\<close> passes to \<^verbatim>\<open>pack_super\<close>.\<close>

record pack_super_args =
  arg_sparse :: bool
  arg_group_name :: string
  arg_size :: int
  arg_super_type :: int
  arg_part_list :: "string list"
  arg_del :: int
  arg_attrib :: string
  arg_block_device_name :: string

text \<open>
  What \<^verbatim>\<open>start_\<close> does: it raises, or shows \<^verbatim>\<open>ask_win\<close> with the adjusted size and
  returns \<^verbatim>\<open>False\<close>, or warns that there is no project and returns \<^verbatim>\<open>False\<close>, or calls
  \<^verbatim>\<open>pack_super\<close>.
\<close>

datatype start_outcome =
    Start_raised tk_error
  | Asked_to_confirm int
  | Warned_no_project
  | Called_pack_super pack_super_args

definition start :: "PackSuper \<Rightarrow> fs \<Rightarrow> bool \<Rightarrow> start_outcome" where
  "start self f project_exists =
     (let self1 = (case super_size self of None \<Rightarrow> self\<lparr>super_size := Some 0\<rparr> | Some v \<Rightarrow> self)
      in case verify_size self1 f of
           Inl e \<Rightarrow> Start_raised e
         | Inr (ok, self2) \<Rightarrow>
             if \<not> ok then Asked_to_confirm (the (super_size self2))
             else if \<not> project_exists then Warned_no_project
             else Called_pack_super
                    \<lparr>arg_sparse = is_sparse self2, arg_group_name = group_name self2,
                     arg_size = the (super_size self2), arg_super_type = super_type self2,
                     arg_part_list = selected self2, arg_del = delete_source_file self2,
                     arg_attrib = attrib self2, arg_block_device_name = block_device_name self2\<rparr>)"

text \<open>A window asking for 100 MiB, with one selected image of 150 MiB.\<close>

definition demo_window :: PackSuper where
  "demo_window = \<lparr>super_size = Some 104857600, is_sparse = False, super_type = 1,
     attrib = ''readonly'', group_name = ''main'', delete_source_file = 0,
     block_device_name = ''super'', selected = [''system''], work = ''/p/''\<rparr>"

definition demo_files :: fs where
  "demo_files = [''/p/system.img'' \<mapsto> replicate 157286400 (CHR ''x'')]"

section \<open>The dynamic-partition synthesizer: \<^verbatim>\<open>pack_super\<close>\<close>

definition endswith :: "string \<Rightarrow> string \<Rightarrow> bool" where
  "endswith s suffix = (length suffix \<le> length s \<and> drop (length s - length suffix) s = suffix)"

text \<open>
  \<^verbatim>\<open>
      if part.endswith('_b') or part.endswith('_a'):
          part = part[:-2]
  \<close>
\<close>

definition strip_slot :: "string \<Rightarrow> string" where
  "strip_slot part =
     (if endswith part ''_b'' \<or> endswith part ''_a'' then take (length part - 2) part else part)"

text \<open>The first loop: \<^verbatim>\<open>lb_c\<close> collects each stripped name once, in order.\<close>

definition canonical_parts :: "string list \<Rightarrow> string list" where
  "canonical_parts part_list =
     fold (\<lambda>part lb_c. let part = strip_slot part
                       in if part \<notin> set lb_c then lb_c @ [part] else lb_c) part_list []"

text \<open>
  The body of the second loop: an \<^verbatim>\<open>_a\<close> image takes the canonical name when no image has
  it. A failing \<^verbatim>\<open>os.rename\<close> is caught and logged.
\<close>

definition rename_slot_a :: "string \<Rightarrow> string \<Rightarrow> fs \<Rightarrow> fs" where
  "rename_slot_a wk part f =
     (if \<not> os_path_exists f (wk @ ''/'' @ part @ ''.img'') \<and>
         os_path_exists f (wk @ ''/'' @ part @ ''_a.img'')
      then (case os_rename f (wk @ ''/'' @ part @ ''_a.img'') (wk @ ''/'' @ part @ ''.img'') of
              Inl e \<Rightarrow> f
            | Inr f' \<Rightarrow> f')
      else f)"

text \<open>
  The partition arguments of slot mode 1 (A-only). \<^verbatim>\<open>os.path.getsize\<close> raises when the
  image is missing, and \<^verbatim>\<open>pack_super\<close> with it.
\<close>

fun partitions_a_only :: "fs \<Rightarrow> string \<Rightarrow> string \<Rightarrow> string \<Rightarrow> string list \<Rightarrow> py_error + string list" where
  "partitions_a_only f wk attr grp [] = Inr []"
| "partitions_a_only f wk attr grp (part # parts) =
     (case os_path_getsize f (wk @ ''/'' @ part @ ''.img'') of
        Inl e \<Rightarrow> Inl e
      | Inr n \<Rightarrow>
          (case partitions_a_only f wk attr grp parts of
             Inl e \<Rightarrow> Inl e
           | Inr rest \<Rightarrow>
               Inr ([''--partition'', part @ '':'' @ attr @ '':'' @ str_nat n @ '':'' @ grp,
                     ''--image'', part @ ''='' @ wk @ ''/'' @ part @ ''.img''] @ rest)))"

text \<open>The \<^verbatim>\<open>_a\<close> entries of the other slot modes.\<close>

fun partitions_slot_a :: "fs \<Rightarrow> string \<Rightarrow> string \<Rightarrow> string \<Rightarrow> string list \<Rightarrow> py_error + string list" where
  "partitions_slot_a f wk attr grp [] = Inr []"
| "partitions_slot_a f wk attr grp (part # parts) =
     (case os_path_getsize f (wk @ ''/'' @ part @ ''.img'') of
        Inl e \<Rightarrow> Inl e
      | Inr n \<Rightarrow>
          (case partitions_slot_a f wk attr grp parts of
             Inl e \<Rightarrow> Inl e
           | Inr rest \<Rightarrow>
               Inr ([''--partition'', part @ ''_a:'' @ attr @ '':'' @ str_nat n @ '':'' @ grp @ ''_a'',
                     ''--image'', part @ ''_a='' @ wk @ part @ ''.img''] @ rest)))"

text \<open>
  The \<^verbatim>\<open>_b\<close> entries: a placeholder of size 0 when \<^verbatim>\<open>work + part + "_b.img"\<close> does not
  exist.
\<close>

fun partitions_slot_b :: "fs \<Rightarrow> string \<Rightarrow> string \<Rightarrow> string \<Rightarrow> string list \<Rightarrow> py_error + string list" where
  "partitions_slot_b f wk attr grp [] = Inr []"
| "partitions_slot_b f wk attr grp (part # parts) =
     (if \<not> os_path_exists f (wk @ part @ ''_b.img'')
      then (case partitions_slot_b f wk attr grp parts of
              Inl e \<Rightarrow> Inl e
            | Inr rest \<Rightarrow> Inr ([''--partition'', part @ ''_b:'' @ attr @ '':0:'' @ grp @ ''_b''] @ rest))
      else (case os_path_getsize f (wk @ ''/'' @ part @ ''_b.img'') of
              Inl e \<Rightarrow> Inl e
            | Inr n \<Rightarrow>
                (case partitions_slot_b f wk attr grp parts of
                   Inl e \<Rightarrow> Inl e
                 | Inr rest \<Rightarrow>
                     Inr ([''--partition'', part @ ''_b:'' @ attr @ '':'' @ str_nat n @ '':'' @ grp @ ''_b'',
                           ''--image'', part @ ''_b='' @ wk @ ''/'' @ part @ ''_b.img''] @ rest))))"

text \<open>
  \<^verbatim>\<open>pack_super\<close> up to the command it has built, which it returns when \<^verbatim>\<open>return_cmd == 1\<close>
  and hands to \<^verbatim>\<open>call\<close> otherwise. \<open>wk\<close> and \<open>output_dir\<close> are the paths after the defaults
  of the project manager are filled in. The result is the files after the renaming loop,
  and the command or the exception raised.
\<close>

definition pack_super :: "bool \<Rightarrow> string \<Rightarrow> int \<Rightarrow> int \<Rightarrow> string list \<Rightarrow> string \<Rightarrow> string
    \<Rightarrow> string \<Rightarrow> string \<Rightarrow> fs \<Rightarrow> fs \<times> (py_error + string list)" where
  "pack_super sparse grp sz slot_mode part_list attr output_dir wk device_name f =
     (let device_name = (if device_name = [] then ''super'' else device_name);
          part_list = canonical_parts part_list;
          f = fold (rename_slot_a wk) part_list f;
          command = [''lpmake'', ''--metadata-size'', ''65536'', ''-super-name'', device_name,
                     ''-metadata-slots''];
          ending = (if sparse then [''--sparse''] else []) @ [''--out'', output_dir @ ''/super.img'']
      in (f,
          if slot_mode = 1
          then (case partitions_a_only f wk attr grp part_list of
                  Inl e \<Rightarrow> Inl e
                | Inr ps \<Rightarrow>
                    Inr (command @ [''2'', ''-device'', device_name @ '':'' @ str_int sz,
                                    ''--group'', grp @ '':'' @ str_int sz] @ ps @ ending))
          else (case partitions_slot_a f wk attr grp part_list of
                  Inl e \<Rightarrow> Inl e
                | Inr pa \<Rightarrow>
                    (case partitions_slot_b f wk attr grp part_list of
                       Inl e \<Rightarrow> Inl e
                     | Inr pb \<Rightarrow>
                         Inr (command @ [''3'', ''-device'', ''super:'' @ str_int sz,
                                         ''--group'', grp @ ''_a:'' @ str_int sz] @ pa @
                              [''--group'', grp @ ''_b:'' @ str_int sz] @ pb @
                              (if slot_mode = 2 then [''--virtual-ab''] else []) @ ending)))))"

text \<open>
  The A-only layout in closed form, for comparison with the code: the entry of one
  partition, sized to the byte length of its image.
\<close>

definition image_length :: "fs \<Rightarrow> path \<Rightarrow> nat" where
  "image_length f p = (case f (norm_path p) of None \<Rightarrow> 0 | Some bytes \<Rightarrow> length bytes)"

definition a_only_entry :: "fs \<Rightarrow> string \<Rightarrow> string \<Rightarrow> string \<Rightarrow> string \<Rightarrow> string list" where
  "a_only_entry f wk attr grp part =
     [''--partition'',
      part @ '':'' @ attr @ '':'' @ str_nat (image_length f (wk @ ''/'' @ part @ ''.img'')) @ '':'' @ grp,
      ''--image'', part @ ''='' @ wk @ ''/'' @ part @ ''.img'']"

text \<open>The entries of the two-slot layouts in closed form.\<close>

definition slot_a_entry :: "fs \<Rightarrow> string \<Rightarrow> string \<Rightarrow> string \<Rightarrow> string \<Rightarrow> string list" where
  "slot_a_entry f wk attr grp part =
     [''--partition'',
      part @ ''_a:'' @ attr @ '':'' @ str_nat (image_length f (wk @ ''/'' @ part @ ''.img'')) @ '':'' @ grp @ ''_a'',
      ''--image'', part @ ''_a='' @ wk @ part @ ''.img'']"

definition slot_b_entry :: "fs \<Rightarrow> string \<Rightarrow> string \<Rightarrow> string \<Rightarrow> string \<Rightarrow> string list" where
  "slot_b_entry f wk attr grp part =
     (if \<not> os_path_exists f (wk @ part @ ''_b.img'')
      then [''--partition'', part @ ''_b:'' @ attr @ '':0:'' @ grp @ ''_b'']
      else [''--partition'',
            part @ ''_b:'' @ attr @ '':'' @ str_nat (image_length f (wk @ ''/'' @ part @ ''_b.img'')) @ '':'' @ grp @ ''_b'',
            ''--image'', part @ ''_b='' @ wk @ ''/'' @ part @ ''_b.img''])"

text \<open>A work directory with both slots of \<^verbatim>\<open>system\<close> and one image of \<^verbatim>\<open>boot\<close>.\<close>

definition demo_slots :: fs where
  "demo_slots = [''/p/boot.img'' \<mapsto> replicate 10485760 (CHR ''b''),
                 ''/p/system.img'' \<mapsto> replicate 524288000 (CHR ''s''),
                 ''/p/system_b.img'' \<mapsto> replicate 4096 (CHR ''t'')]"

text \<open>
  A work directory with a 10 MiB \<^verbatim>\<open>boot\<close> image and a 500 MiB \<^verbatim>\<open>system_a\<close> image, before
  and after the renaming loop.
\<close>

definition demo_images :: fs where
  "demo_images = [''/p/boot.img'' \<mapsto> replicate 10485760 (CHR ''b''),
                  ''/p/system_a.img'' \<mapsto> replicate 524288000 (CHR ''s'')]"

definition demo_images_renamed :: fs where
  "demo_images_renamed = [''/p/boot.img'' \<mapsto> replicate 10485760 (CHR ''b''),
                  ''/p/system.img'' \<mapsto> replicate 524288000 (CHR ''s'')]"

section \<open>The lines of a resize list\<close>





section \<open>Collaborators and the state of an operation\<close>

text \<open>
  The external tools and library modules are not part of the code under verification: a
  subprocess started through \<^verbatim>\<open>call\<close> is known by its argument vector, a library call by
  its name and arguments. What an invocation does to the files, the exit status it gives
  and the text it answers are parameters of the model. The procedures \<^verbatim>\<open>un_dtbo\<close>,
  \<^verbatim>\<open>unpack_boot\<close> and \<^verbatim>\<open>logo_dump\<close> are taken as such invocations as well.
\<close>

datatype invocation = Subprocess "string list" | Library string "string list"

record env =
  effect :: "invocation \<Rightarrow> fs \<Rightarrow> fs"
  status :: "invocation \<Rightarrow> fs \<Rightarrow> int"
  answer :: "invocation \<Rightarrow> fs \<Rightarrow> string"
  listdir :: "fs \<Rightarrow> path \<Rightarrow> string list"
  samefile :: "fs \<Rightarrow> path \<Rightarrow> path \<Rightarrow> bool"
  abspath :: "path \<Rightarrow> path"
  lang :: "string \<Rightarrow> string"
  py_format :: "string \<Rightarrow> string list \<Rightarrow> string"

text \<open>
  The state an operation works on: the files, the invocations made so far, the lines
  printed or shown to the user, the in-memory registry \<^verbatim>\<open>parts\<close> and what \<^verbatim>\<open>json_.write\<close>
  was given, call by call.
\<close>

record world =
  files :: fs
  trace :: "invocation list"
  out :: "string list"
  parts :: "string \<rightharpoonup> string"
  written :: "(string \<rightharpoonup> string) list"

definition print :: "string \<Rightarrow> world \<Rightarrow> world" where
  "print line w = w\<lparr>out := out w @ [line]\<rparr>"

definition run :: "env \<Rightarrow> invocation \<Rightarrow> world \<Rightarrow> world" where
  "run E i w = w\<lparr>files := effect E i (files w), trace := trace w @ [i]\<rparr>"

text \<open>\<^verbatim>\<open>call(exe)\<close>: the subprocess runs and its exit status is returned.\<close>

definition call :: "env \<Rightarrow> string list \<Rightarrow> world \<Rightarrow> int \<times> world" where
  "call E exe w = (status E (Subprocess exe) (files w), run E (Subprocess exe) w)"

definition os_access :: "fs \<Rightarrow> path \<Rightarrow> bool" where
  "os_access f p = (f (norm_path p) \<noteq> None)"

definition gettype :: "env \<Rightarrow> fs \<Rightarrow> path \<Rightarrow> string" where
  "gettype E f p = answer E (Library ''gettype'' [p]) f"

section \<open>Reassembly of a multi-part transfer file in \<^verbatim>\<open>unpack\<close>\<close>

text \<open>\<^verbatim>\<open>open(p, 'ab')\<close> followed by \<^verbatim>\<open>write(bytes)\<close>: the file is created when missing.\<close>

definition append_bytes :: "fs \<Rightarrow> path \<Rightarrow> string \<Rightarrow> fs" where
  "append_bytes f p bytes =
     f(norm_path p \<mapsto> (case f (norm_path p) of None \<Rightarrow> [] | Some old \<Rightarrow> old) @ bytes)"

definition segment :: "string \<Rightarrow> string \<Rightarrow> nat \<Rightarrow> path" where
  "segment wk i n = wk @ ''/'' @ i @ ''.new.dat.'' @ str_nat n"

text \<open>
  The body of \<^verbatim>\<open>for n in range(100)\<close>:
  \<^verbatim>\<open>
      if os.access(f"{work}/{i}.new.dat.{n}", os.F_OK):
          print(lang.text83 % (i + f".new.dat.{n}", f"{i}.new.dat"))
          with open(f"{work}/{i}.new.dat.{n}", 'rb') as fd:
              ofd.write(fd.read())
          os.remove(f"{work}/{i}.new.dat.{n}")
  \<close>
\<close>

definition merge_segment :: "env \<Rightarrow> string \<Rightarrow> string \<Rightarrow> nat \<Rightarrow> world \<Rightarrow> world" where
  "merge_segment E wk i n w =
     (case files w (norm_path (segment wk i n)) of
        None \<Rightarrow> w
      | Some bytes \<Rightarrow>
          (print (py_format E (lang E ''text83'') [i @ ''.new.dat.'' @ str_nat n, i @ ''.new.dat'']) w)
            \<lparr>files := (append_bytes (files w) (wk @ ''/'' @ i @ ''.new.dat'') bytes)
                        (norm_path (segment wk i n) := None)\<rparr>)"

text \<open>
  \<^verbatim>\<open>
      if os.access(f"{work}/{i}.new.dat.1", os.F_OK):
          with open(f"{work}/{i}.new.dat", 'ab') as ofd:
              for n in range(100):
                  ...
  \<close>
\<close>

definition reassemble :: "env \<Rightarrow> string \<Rightarrow> string \<Rightarrow> world \<Rightarrow> world" where
  "reassemble E wk i w =
     (if os_access (files w) (segment wk i 1)
      then fold (merge_segment E wk i) [0..<100]
             (w\<lparr>files := append_bytes (files w) (wk @ ''/'' @ i @ ''.new.dat'') []\<rparr>)
      else w)"

text \<open>The bytes of the segments that exist, in the order of the indices given.\<close>

definition segments_bytes :: "fs \<Rightarrow> string \<Rightarrow> string \<Rightarrow> nat list \<Rightarrow> string" where
  "segments_bytes f wk i ns =
     concat (map (\<lambda>n. case f (norm_path (segment wk i n)) of None \<Rightarrow> [] | Some bytes \<Rightarrow> bytes) ns)"

text \<open>The value of a decimal digit, to read \<open>str_nat\<close> back.\<close>

definition digit_val :: "char \<Rightarrow> nat" where
  "digit_val c = length (takeWhile (\<lambda>d. d \<noteq> c) ''0123456789'')"

text \<open>
  Collaborators that do nothing, and a work directory holding the segments 0, 1 and 100
  of \<^verbatim>\<open>system.new.dat\<close>.
\<close>

definition null_env :: env where
  "null_env = \<lparr>effect = (\<lambda>i f. f), status = (\<lambda>i f. 0), answer = (\<lambda>i f. []),
     listdir = (\<lambda>f p. []), samefile = (\<lambda>f p q. norm_path p = norm_path q), abspath = (\<lambda>p. p),
     lang = (\<lambda>key. key), py_format = (\<lambda>template args. template)\<rparr>"

definition demo_segments :: world where
  "demo_segments = \<lparr>files = [''/p/system.new.dat.0'' \<mapsto> ''ab'', ''/p/system.new.dat.1'' \<mapsto> ''cd'',
                               ''/p/system.new.dat.100'' \<mapsto> ''zz''],
     trace = [], out = [], parts = Map.empty, written = []\<rparr>"

section \<open>The Compressed-Transfer Pipeline\<close>

text \<open>
  What a block of code does to the state: it runs to its end, it returns from the
  function, or it raises. The decorator \<^verbatim>\<open>@animation\<close> of \<^verbatim>\<open>unpack\<close>, \<^verbatim>\<open>datbr\<close> and
  \<^verbatim>\<open>conversion\<close> logs an exception and swallows it, so a raise ends the decorated function
  with the state as it stands.
\<close>

datatype flow = Next world | Return world | Raise py_error world

subsection \<open>Paths and names\<close>

text \<open>\<^verbatim>\<open>os.path.basename(p)\<close> and \<^verbatim>\<open>s.split('.')[0]\<close>\<close>

definition os_path_basename :: "path \<Rightarrow> string" where
  "os_path_basename p = rev (takeWhile (\<lambda>c. c \<noteq> CHR ''/'') (rev p))"

definition stem :: "string \<Rightarrow> string" where
  "stem s = takeWhile (\<lambda>c. c \<noteq> CHR ''.'') s"

text \<open>\<^verbatim>\<open>os.path.dirname(p)\<close> of \<^verbatim>\<open>posixpath\<close>.\<close>

definition os_path_dirname :: "path \<Rightarrow> path" where
  "os_path_dirname p =
     (let head = rev (dropWhile (\<lambda>c. c \<noteq> CHR ''/'') (rev p))
      in if head \<noteq> [] \<and> \<not> list_all (\<lambda>c. c = CHR ''/'') head
         then rev (dropWhile (\<lambda>c. c = CHR ''/'') (rev head))
         else head)"

text \<open>\<^verbatim>\<open>s.replace(old, new)\<close> for a non-empty \<open>old\<close>: every occurrence, from the left.\<close>

function py_replace :: "string \<Rightarrow> string \<Rightarrow> string \<Rightarrow> string" where
  "py_replace old new [] = []"
| "py_replace old new (c # cs) =
     (if old \<noteq> [] \<and> take (length old) (c # cs) = old
      then new @ py_replace old new (drop (length old) (c # cs))
      else c # py_replace old new cs)"
  by pat_completeness auto
termination
  by (relation "measure (\<lambda>(old, new, s). length s)") (auto simp: Suc_le_eq)

declare py_replace.simps(2) [simp del]

text \<open>
  \<^verbatim>\<open>s.rsplit(sep, 1)[0]\<close> for a non-empty \<open>sep\<close>: what stands before the last occurrence,
  or all of \<open>s\<close> when there is none. \<open>before_last sep s\<close> is \<open>None\<close> when \<open>sep\<close> does not occur.
\<close>

fun before_last :: "string \<Rightarrow> string \<Rightarrow> string option" where
  "before_last sep [] = None"
| "before_last sep (c # cs) =
     (case before_last sep cs of
        Some pre \<Rightarrow> Some (c # pre)
      | None \<Rightarrow> if sep \<noteq> [] \<and> take (length sep) (c # cs) = sep then Some [] else None)"

definition py_rsplit_first :: "string \<Rightarrow> string \<Rightarrow> string" where
  "py_rsplit_first sep s = (case before_last sep s of None \<Rightarrow> s | Some pre \<Rightarrow> pre)"

definition transfer_list_path :: "env \<Rightarrow> string \<Rightarrow> string \<Rightarrow> path" where
  "transfer_list_path E wk basename =
     abspath E (os_path_dirname wk) @ ''/'' @ basename @ ''.transfer.list''"

subsection \<open>\<^verbatim>\<open>img2simg\<close> and \<^verbatim>\<open>datbr\<close>\<close>

text \<open>
  \<^verbatim>\<open>
  def img2simg(path: str):
      call(['img2simg', path, f'{path}s'])
      if os.path.exists(path + 's'):
          try:
              os.remove(path)
              os.rename(path + 's', path)
          except Exception:
              logging.exception('Bugs')
  \<close>
\<close>

definition img2simg :: "env \<Rightarrow> path \<Rightarrow> world \<Rightarrow> world" where
  "img2simg E p w =
     (let w = snd (call E [''img2simg'', p, p @ ''s''] w)
      in if os_path_exists (files w) (p @ ''s'')
         then (case os_remove (files w) p of
                 Inl e \<Rightarrow> w
               | Inr f \<Rightarrow>
                   (case os_rename f (p @ ''s'') p of
                      Inl e \<Rightarrow> w\<lparr>files := f\<rparr>
                    | Inr f' \<Rightarrow> w\<lparr>files := f'\<rparr>))
         else w)"

text \<open>
  The argument \<^verbatim>\<open>brl\<close> of \<^verbatim>\<open>datbr\<close>: the string \<^verbatim>\<open>"dat"\<close> or a brotli quality.
\<close>

datatype brl = To_dat | Quality int

text \<open>
  \<^verbatim>\<open>datbr(work, name, brl, dat_ver)\<close>. The \<^verbatim>\<open>except\<close> handler of the first removal
  removes again, so a removal that fails raises; the decorator ends the function there.
\<close>

definition datbr :: "env \<Rightarrow> string \<Rightarrow> string \<Rightarrow> brl \<Rightarrow> int \<Rightarrow> world \<Rightarrow> world" where
  "datbr E wk part b dat_ver w =
     (let img = wk @ ''/'' @ part @ ''.img'';
          dat = wk @ ''/'' @ part @ ''.new.dat'';
          w = print (py_format E (lang E ''text86'') [part, part]) w
      in if \<not> os_path_exists (files w) img then print (img @ lang E ''text84'') w
         else
           (let w = run E (Library ''utils.img2sdat'' [img, wk, str_int dat_ver, part]) w
            in case (if os_access (files w) dat then os_remove (files w) img else Inr (files w)) of
                 Inl e \<Rightarrow> w
               | Inr f \<Rightarrow>
                   (let w = w\<lparr>files := f\<rparr>
                    in case b of
                         To_dat \<Rightarrow> print (py_format E (lang E ''text87'') [part]) w
                       | Quality q \<Rightarrow>
                           (let w = print (py_format E (lang E ''text88'') [part, ''br'']) w;
                                w = snd (call E [''brotli'', ''-q'', str_int q, ''-j'', ''-w'', ''24'',
                                                 dat, ''-o'', dat @ ''.br''] w);
                                w = (if os_access (files w) dat
                                     then (case os_remove (files w) dat of
                                             Inl e \<Rightarrow> w
                                           | Inr f \<Rightarrow> w\<lparr>files := f\<rparr>)
                                     else w)
                            in print (py_format E (lang E ''text89'') [part, ''br'']) w))))"

subsection \<open>\<^verbatim>\<open>FormatConversion.conversion\<close>\<close>

text \<open>The decompression both the \<^verbatim>\<open>sparse\<close> and the \<^verbatim>\<open>raw\<close> branch start with.\<close>

definition decompress_source :: "env \<Rightarrow> string \<Rightarrow> string \<Rightarrow> string \<Rightarrow> world \<Rightarrow> world" where
  "decompress_source E wk hget i w =
     (let w = (if hget = ''br'' \<and> os_access (files w) (wk @ ''/'' @ i)
               then snd (call E [''brotli'', ''-dj'', wk @ ''/'' @ i] (print (lang E ''text79'' @ i) w))
               else w)
      in if hget = ''xz'' \<and> os_access (files w) (wk @ ''/'' @ i)
         then run E (Library ''Unxz'' [wk @ ''/'' @ i]) (print (lang E ''text79'' @ i) w)
         else w)"

text \<open>
  The removals after a replay in the \<^verbatim>\<open>raw\<close> branch, inside one \<^verbatim>\<open>try\<close>: the first failure
  skips the rest.
  \<^verbatim>\<open>
      try:
          os.remove(f'{work}/{i}')
          os.remove(transferfile)
          if not os.path.getsize(f'{work}/{basename}.patch.dat'):
              os.remove(f'{work}/{basename}.patch.dat')
      except (PermissionError, IOError, FileNotFoundError, IsADirectoryError):
          logging.exception('Bugs')
  \<close>
\<close>

definition remove_consumed :: "fs \<Rightarrow> path \<Rightarrow> path \<Rightarrow> path \<Rightarrow> fs" where
  "remove_consumed f dat transferfile patch =
     (case os_remove f dat of
        Inl e \<Rightarrow> f
      | Inr f1 \<Rightarrow>
          (case os_remove f1 transferfile of
             Inl e \<Rightarrow> f1
           | Inr f2 \<Rightarrow>
               (case os_path_getsize f2 patch of
                  Inl e \<Rightarrow> f2
                | Inr n \<Rightarrow>
                    if n = 0 then (case os_remove f2 patch of Inl e \<Rightarrow> f2 | Inr f3 \<Rightarrow> f3)
                    else f2)))"

definition to_raw :: "env \<Rightarrow> string \<Rightarrow> string \<Rightarrow> string \<Rightarrow> world \<Rightarrow> flow" where
  "to_raw E wk hget i w =
     (let basename = stem (os_path_basename i);
          w = decompress_source E wk hget i w
      in if hget \<in> {''dat'', ''br'', ''xz''} \<and> os_path_exists (files w) wk
         then
           (let i = (if hget = ''br'' then py_replace ''.br'' [] i else i);
                i = (if hget = ''xz'' then py_replace ''.xz'' [] i else i);
                w = print (lang E ''text79'' @ wk @ ''/'' @ i) w;
                transferfile = transfer_list_path E wk basename;
                img = wk @ ''/'' @ basename @ ''.img''
            in if \<not> os_access (files w) transferfile
               then Next (print (''transferfile'' @ lang E ''text84'') w)
               else
                 (case os_path_getsize (files w) (wk @ ''/'' @ i) of
                    Inl e \<Rightarrow> Raise e w
                  | Inr n \<Rightarrow>
                      if n = 0 then Next (print (''transferfile'' @ lang E ''text84'') w)
                      else
                        (let w = run E (Library ''Sdat2img'' [transferfile, wk @ ''/'' @ i, img]) w
                         in if os_access (files w) img
                            then Next (w\<lparr>files := remove_consumed (files w) (wk @ ''/'' @ i) transferfile
                                                     (wk @ ''/'' @ basename @ ''.patch.dat'')\<rparr>)
                            else Next w)))
         else if hget = ''sparse'' then Next (run E (Library ''utils.simg2img'' [wk @ ''/'' @ i]) w)
         else Next w)"

definition to_sparse :: "env \<Rightarrow> string \<Rightarrow> string \<Rightarrow> string \<Rightarrow> world \<Rightarrow> flow" where
  "to_sparse E wk hget i w =
     (let basename = stem (os_path_basename i);
          img = wk @ ''/'' @ basename @ ''.img'';
          w = decompress_source E wk hget i w
      in if hget = ''dat''
         then
           (case
              (if os_access (files w) (wk @ ''/'' @ i)
               then
                 (let w = print (lang E ''text79'' @ wk @ ''/'' @ i) w;
                      transferfile = transfer_list_path E wk basename
                  in if \<not> os_access (files w) transferfile
                     then Next (print (''transferpath'' @ lang E ''text84'') w)
                     else
                       (case os_path_getsize (files w) (wk @ ''/'' @ i) of
                          Inl e \<Rightarrow> Raise e w
                        | Inr n \<Rightarrow>
                            if n = 0 then Next (print (''transferpath'' @ lang E ''text84'') w)
                            else
                              (let w = run E (Library ''Sdat2img'' [transferfile, wk @ ''/'' @ i, img]) w
                               in if os_access (files w) img
                                  then
                                    (case os_remove (files w) (wk @ ''/'' @ i) of
                                       Inl e \<Rightarrow> Raise e w
                                     | Inr f1 \<Rightarrow>
                                         (case os_remove f1 transferfile of
                                            Inl e \<Rightarrow> Raise e (w\<lparr>files := f1\<rparr>)
                                          | Inr f2 \<Rightarrow>
                                              (case os_remove f2 (wk @ ''/'' @ basename @ ''.patch.dat'') of
                                                 Inl e \<Rightarrow> Next (w\<lparr>files := f2\<rparr>)
                                               | Inr f3 \<Rightarrow> Next (w\<lparr>files := f3\<rparr>))))
                                  else Next w)))
               else Next w)
            of
              Next w \<Rightarrow> Next (if os_path_exists (files w) img then img2simg E img w else w)
            | other \<Rightarrow> other)
         else if hget = ''raw''
         then Next (if os_path_exists (files w) img then img2simg E img w else w)
         else Next w)"

text \<open>
  \<^verbatim>\<open>
      elif f_get == 'dat':
          if hget == 'raw':
              img2simg(f'{work}/{i}')
          if hget in ['raw', 'sparse']:
              datbr(work, os.path.basename(i).split('.')[0], "dat")
          if hget == 'br':
              print(lang.text79 + i)
              call(['brotli', '-dj', f'{work}/{i}'])
          if hget == 'xz':
              print(lang.text79 + i)
              Unxz(f'{work}/{i}')
  \<close>
\<close>

definition to_dat :: "env \<Rightarrow> string \<Rightarrow> string \<Rightarrow> string \<Rightarrow> world \<Rightarrow> flow" where
  "to_dat E wk hget i w =
     (let w = (if hget = ''raw'' then img2simg E (wk @ ''/'' @ i) w else w);
          w = (if hget \<in> {''raw'', ''sparse''} then datbr E wk (stem (os_path_basename i)) To_dat 4 w else w);
          w = (if hget = ''br''
               then snd (call E [''brotli'', ''-dj'', wk @ ''/'' @ i] (print (lang E ''text79'' @ i) w))
               else w);
          w = (if hget = ''xz''
               then run E (Library ''Unxz'' [wk @ ''/'' @ i]) (print (lang E ''text79'' @ i) w)
               else w)
      in Next w)"

definition to_br :: "env \<Rightarrow> string \<Rightarrow> string \<Rightarrow> string \<Rightarrow> world \<Rightarrow> flow" where
  "to_br E wk hget i w =
     (let w = (if hget = ''raw'' then img2simg E (wk @ ''/'' @ i) w else w);
          w = (if hget \<in> {''raw'', ''sparse''} then datbr E wk (stem (os_path_basename i)) (Quality 0) 4 w else w)
      in if hget \<in> {''dat'', ''xz''}
         then
           (let w = (if hget = ''xz''
                     then run E (Library ''Unxz'' [wk @ ''/'' @ i]) (print (lang E ''text79'' @ i) w)
                     else w);
                i = (if hget = ''xz'' then py_rsplit_first ''.xz'' i else i);
                w = print (py_format E (lang E ''text88'') [stem (os_path_basename i), ''br'']) w;
                w = snd (call E [''brotli'', ''-q'', ''0'', ''-j'', ''-w'', ''24'', wk @ ''/'' @ i,
                                 ''-o'', wk @ ''/'' @ i @ ''.br''] w)
            in Next (if os_access (files w) (wk @ ''/'' @ i @ ''.br'')
                     then (case os_remove (files w) (wk @ ''/'' @ i) of
                             Inl e \<Rightarrow> w
                           | Inr f \<Rightarrow> w\<lparr>files := f\<rparr>)
                     else w))
         else Next w)"

text \<open>The body of the loop of \<^verbatim>\<open>conversion\<close> for one selected item.\<close>

definition convert_item :: "env \<Rightarrow> string \<Rightarrow> string \<Rightarrow> string \<Rightarrow> string \<Rightarrow> world \<Rightarrow> flow" where
  "convert_item E wk hget f_get i w =
     (let w = print (''['' @ hget @ ''->'' @ f_get @ '']'' @ i) w
      in if f_get = ''sparse'' then to_sparse E wk hget i w
         else if f_get = ''raw'' then to_raw E wk hget i w
         else if f_get = ''dat'' then to_dat E wk hget i w
         else if f_get = ''br'' then to_br E wk hget i w
         else Next w)"

fun convert_all :: "env \<Rightarrow> string \<Rightarrow> string \<Rightarrow> string \<Rightarrow> string list \<Rightarrow> world \<Rightarrow> flow" where
  "convert_all E wk hget f_get [] w = Next (print (lang E ''text8'') w)"
| "convert_all E wk hget f_get (i # selection) w =
     (case convert_item E wk hget f_get i w of
        Next w' \<Rightarrow> convert_all E wk hget f_get selection w'
      | other \<Rightarrow> other)"

text \<open>
  \<^verbatim>\<open>conversion\<close>, with the output path of the project, the two formats chosen and the
  selection.
\<close>

definition conversion :: "env \<Rightarrow> string \<Rightarrow> string \<Rightarrow> string \<Rightarrow> string list \<Rightarrow> world \<Rightarrow> flow" where
  "conversion E wk hget f_get selection w =
     (if f_get = hget then Return w else convert_all E wk hget f_get selection w)"

text \<open>
  The state a block ends in; a replay tool that writes the image it is asked for; and work
  directories holding a transfer list with its data and patch files, and a sparse image.
\<close>

definition world_of :: "flow \<Rightarrow> world" where
  "world_of r = (case r of Next w \<Rightarrow> w | Return w \<Rightarrow> w | Raise e w \<Rightarrow> w)"

definition replay_env :: env where
  "replay_env = null_env\<lparr>effect :=
     (\<lambda>iv f. case iv of
        Subprocess exe \<Rightarrow> f
      | Library m args \<Rightarrow>
          if m = ''Sdat2img'' then f(norm_path (args ! 2) \<mapsto> ''image'') else f)\<rparr>"

definition demo_transfer :: world where
  "demo_transfer = \<lparr>files = [''/o/'' \<mapsto> [], ''/o/system.new.dat'' \<mapsto> ''data'',
                               ''/o/system.transfer.list'' \<mapsto> ''4'', ''/o/system.patch.dat'' \<mapsto> ''patch''],
     trace = [], out = [], parts = Map.empty, written = []\<rparr>"


section \<open>Properties of the Size Estimator\<close>







lemma py_int_of_int: "py_int (of_int v) = v"
  by (simp add: py_int_def)





section \<open>Properties of the size check\<close>

lemma grow_result:
  "grow is sz d = sz \<or> (\<exists>i \<in> set is. i \<noteq> 0 \<and> grow is sz d = (of_nat i - 1 / 4) * 1024 ^ 3 \<and> sz \<le> grow is sz d)"
proof (induction "is" arbitrary: d)
  case Nil
  then show ?case by simp
next
  case (Cons i "is")
  show ?case
  proof (cases "i = 0")
    case True
    then show ?thesis using Cons.IH [of d] by auto
  next
    case False
    let ?t = "(1024 ^ 3) * (of_nat i - 1 / 4) - sz :: rat"
    consider "?t < 0" | "\<not> ?t < 0" "?t < d" | "\<not> ?t < 0" "\<not> ?t < d" by blast
    then show ?thesis
    proof cases
      case 1
      then show ?thesis using False Cons.IH [of d] by (auto simp: Let_def)
    next
      case 2
      then show ?thesis using False Cons.IH [of ?t] by (auto simp: Let_def)
    next
      case 3
      then show ?thesis using False by (auto simp: Let_def)
    qed
  qed
qed


lemma quarter_GiB: "(of_nat i - 1 / 4) * 1024 ^ 3 = (of_int ((4 * int i - 1) * 268435456) :: rat)"
  by (simp add: algebra_simps)

lemma grow_20:
  "py_int (grow [0..<20] (of_int sz) (of_int sz)) = sz \<or>
   (\<exists>k \<in> {1..19}. py_int (grow [0..<20] (of_int sz) (of_int sz)) = (4 * int k - 1) * 268435456
       \<and> sz \<le> (4 * int k - 1) * 268435456)"
proof -
  let ?g = "grow [0..<20] (of_int sz) (of_int sz)"
  from grow_result [of "[0..<20]" "of_int sz" "of_int sz"]
  consider "?g = of_int sz"
    | i where "i \<in> set [0..<20]" "i \<noteq> 0" "?g = (of_nat i - 1 / 4) * 1024 ^ 3" "of_int sz \<le> ?g"
    by blast
  then show ?thesis
  proof cases
    case 1
    then show ?thesis by (simp add: py_int_of_int)
  next
    case 2
    have g: "?g = of_int ((4 * int i - 1) * 268435456)"
      using 2(3) by (simp only: quarter_GiB)
    have "sz \<le> (4 * int i - 1) * 268435456"
      using 2(4) unfolding g by (simp only: of_int_le_iff)
    moreover have "i \<in> {1..19}" using 2(1,2) by auto
    ultimately show ?thesis
      unfolding g py_int_of_int by blast
  qed
qed

text \<open>
  Claim C2, as the code has it. When the images of the selected partitions add up to more
  than the requested super size (0 when the entry holds no integer), \<^verbatim>\<open>start_\<close> does not
  call \<^verbatim>\<open>pack_super\<close>: it shows the confirmation dialog with the adjusted size and returns.
  The adjusted size is at least the content total; it is the content total itself or one
  of the candidates \<open>(k - 0.25)\<close> GiB, \<open>k = 1, \<dots>, 19\<close>. The candidates are 1 GiB apart
  and do not start from the requested size.
\<close>

theorem start_asks_to_confirm:
  assumes "sum_sizes f (work self) (selected self) = Inr tot"
    and "requested = (case super_size self of None \<Rightarrow> 0 | Some v \<Rightarrow> v)"
    and "requested < tot"
  shows "\<exists>n. start self f project_exists = Asked_to_confirm n \<and> tot \<le> n \<and>
           (n = tot \<or> (\<exists>k \<in> {1..19}. n = (4 * int k - 1) * 268435456))"
proof -
  let ?n = "py_int (grow [0..<20] (of_int tot) (of_int tot))"
  have "start self f project_exists = Asked_to_confirm ?n"
    using assms by (simp add: start_def verify_size_def Let_def split: option.splits)
  moreover have "tot \<le> ?n \<and> (?n = tot \<or> (\<exists>k \<in> {1..19}. ?n = (4 * int k - 1) * 268435456))"
    using grow_20 [of tot] by auto
  ultimately show ?thesis by blast
qed

lemma demo_sum: "sum_sizes demo_files (work demo_window) (selected demo_window) = Inr 157286400"
  by (simp add: demo_window_def demo_files_def os_path_getsize_def)

lemma grow_demo: "grow [0..<20] 157286400 157286400 = 805306368"
  by (simp add: upt_rec Let_def)

theorem start_asks_to_confirm_witness:
  "\<exists>n. start demo_window demo_files True = Asked_to_confirm n \<and> 157286400 \<le> n \<and>
           (n = 157286400 \<or> (\<exists>k \<in> {1..19}. n = (4 * int k - 1) * 268435456))"
  using start_asks_to_confirm [OF demo_sum, of 104857600 True]
  by (simp add: demo_window_def)

text \<open>
  The claim as it is written fails: with 100 MiB requested and 150 MiB selected the adjusted
  size is 805,306,368 (0.75 GiB), which is not the request grown by a whole number of
  quarter-gigabyte steps.
\<close>

theorem start_not_quarter_steps:
  "start demo_window demo_files True = Asked_to_confirm 805306368
   \<and> (805306368 - 104857600) mod 268435456 \<noteq> (0 :: int)"
proof -
  have "py_int (grow [0..<20] 157286400 157286400) = 805306368"
    unfolding grow_demo using py_int_of_int [of 805306368] by simp
  then have "start demo_window demo_files True = Asked_to_confirm 805306368"
    using demo_sum by (simp add: start_def verify_size_def demo_window_def)
  then show ?thesis by simp
qed

section \<open>Properties of the synthesizer\<close>

lemma fold_canonical:
  "distinct acc \<Longrightarrow>
   distinct (fold (\<lambda>part lb_c. let part = strip_slot part
                       in if part \<notin> set lb_c then lb_c @ [part] else lb_c) ps acc) \<and>
   set (fold (\<lambda>part lb_c. let part = strip_slot part
                       in if part \<notin> set lb_c then lb_c @ [part] else lb_c) ps acc)
     = set acc \<union> strip_slot ` set ps"
  by (induction ps arbitrary: acc) (auto simp: Let_def)

lemma canonical_parts_distinct: "distinct (canonical_parts ps)"
  using fold_canonical [of "[]" ps] by (simp add: canonical_parts_def)

lemma canonical_parts_set: "set (canonical_parts ps) = strip_slot ` set ps"
  using fold_canonical [of "[]" ps] by (simp add: canonical_parts_def)

lemma partitions_a_only_all:
  "\<forall>part \<in> set ps. os_path_exists f (wk @ ''/'' @ part @ ''.img'') \<Longrightarrow>
   partitions_a_only f wk attr grp ps = Inr (concat (map (a_only_entry f wk attr grp) ps))"
  by (induction ps)
    (auto simp: os_path_exists_def os_path_getsize_def a_only_entry_def image_length_def)


text \<open>
  Claim C3. In slot mode A-only (\<^verbatim>\<open>super_type == 1\<close>), when the image of every canonical
  name exists once the renaming loop has run, the command has the metadata size 65536, one
  device entry of the requested size, one group of the requested size under the given
  name, and after them one partition entry (with its image) per canonical name, whose
  declared size is the byte length of that partition's image file. The canonical names are
  the names of the selection with the \<^verbatim>\<open>_a\<close> or \<^verbatim>\<open>_b\<close> suffix stripped, each once.
\<close>

theorem pack_super_a_only:
  assumes "files' = fold (rename_slot_a wk) (canonical_parts part_list) f"
    and "\<forall>part \<in> set (canonical_parts part_list). os_path_exists files' (wk @ ''/'' @ part @ ''.img'')"
    and "dn = (if device_name = [] then ''super'' else device_name)"
  shows "pack_super sparse grp sz 1 part_list attr output_dir wk device_name f =
     (files',
      Inr ([''lpmake'', ''--metadata-size'', ''65536'', ''-super-name'', dn, ''-metadata-slots'', ''2'',
            ''-device'', dn @ '':'' @ str_int sz,
            ''--group'', grp @ '':'' @ str_int sz] @
           concat (map (a_only_entry files' wk attr grp) (canonical_parts part_list)) @
           (if sparse then [''--sparse''] else []) @ [''--out'', output_dir @ ''/super.img'']))
     \<and> distinct (canonical_parts part_list)
     \<and> set (canonical_parts part_list) = strip_slot ` set part_list"
proof -
  have "partitions_a_only files' wk attr grp (canonical_parts part_list)
      = Inr (concat (map (a_only_entry files' wk attr grp) (canonical_parts part_list)))"
    using assms(2) by (rule partitions_a_only_all)
  then show ?thesis
    using assms(1,3) canonical_parts_distinct [of part_list] canonical_parts_set [of part_list]
    by (simp add: pack_super_def Let_def)
qed

lemma demo_canonical: "canonical_parts [''boot'', ''system_a'', ''system_b''] = [''boot'', ''system'']"
  by (simp add: canonical_parts_def strip_slot_def endswith_def)

lemma demo_renamed:
  "fold (rename_slot_a ''/p'') [''boot'', ''system''] demo_images = demo_images_renamed"
  by (auto simp: rename_slot_a_def os_path_exists_def os_rename_def demo_images_def
      demo_images_renamed_def fun_upd_def)

lemma str_nat_10MiB: "str_nat 10485760 = ''10485760''"
  by (simp add: str_nat.simps digit_char_def)

lemma str_nat_500MiB: "str_nat 524288000 = ''524288000''"
  by (simp add: str_nat.simps digit_char_def)

lemma str_int_600MiB: "str_int 629145600 = ''629145600''"
  by (simp add: str_int_def str_nat.simps digit_char_def)

theorem pack_super_a_only_witness:
  "pack_super False ''main'' 629145600 1 [''boot'', ''system_a'', ''system_b''] ''readonly'' ''/o'' ''/p''
      ''super'' demo_images =
     (demo_images_renamed,
      Inr [''lpmake'', ''--metadata-size'', ''65536'', ''-super-name'', ''super'', ''-metadata-slots'', ''2'',
           ''-device'', ''super:629145600'', ''--group'', ''main:629145600'',
           ''--partition'', ''boot:readonly:10485760:main'', ''--image'', ''boot=/p/boot.img'',
           ''--partition'', ''system:readonly:524288000:main'', ''--image'', ''system=/p/system.img'',
           ''--out'', ''/o/super.img''])"
proof -
  have h1: "demo_images_renamed = fold (rename_slot_a ''/p'') (canonical_parts [''boot'', ''system_a'', ''system_b'']) demo_images"
    by (simp only: demo_canonical demo_renamed)
  have h2: "\<forall>part \<in> set (canonical_parts [''boot'', ''system_a'', ''system_b'']).
      os_path_exists demo_images_renamed (''/p'' @ ''/'' @ part @ ''.img'')"
    by (simp add: demo_canonical os_path_exists_def demo_images_renamed_def)
  have h3: "''super'' = (if ''super'' = [] then ''super'' else ''super'')" by simp
  show ?thesis
    using pack_super_a_only [OF h1 h2 h3, of False "''main''" 629145600 "''readonly''" "''/o''"]
    by (simp add: demo_canonical a_only_entry_def image_length_def demo_images_renamed_def
        str_nat_10MiB str_nat_500MiB str_int_600MiB)
qed

text \<open>
  The files after the call, an exception raised and the command after the device entry are
  the same for every block device name.
\<close>

lemma pack_super_same_for_all_names:
  "\<exists>files' rest. \<forall>device_name.
     pack_super sparse grp sz slot_mode part_list attr output_dir wk device_name f =
       (files',
        case rest of
          Inl e \<Rightarrow> Inl e
        | Inr r \<Rightarrow>
            Inr ([''lpmake'', ''--metadata-size'', ''65536'', ''-super-name'',
                  (if device_name = [] then ''super'' else device_name), ''-metadata-slots''] @
                 (if slot_mode = 1
                  then [''2'', ''-device'', (if device_name = [] then ''super'' else device_name) @ '':'' @ str_int sz]
                  else [''3'', ''-device'', ''super:'' @ str_int sz]) @ r))"
proof -
  define ps where "ps = canonical_parts part_list"
  define f' where "f' = fold (rename_slot_a wk) ps f"
  define ending where
    "ending = (if sparse then [''--sparse''] else []) @ [''--out'', output_dir @ ''/super.img'']"
  define rest :: "py_error + string list" where
    "rest = (if slot_mode = 1
             then (case partitions_a_only f' wk attr grp ps of
                     Inl e \<Rightarrow> Inl e
                   | Inr p \<Rightarrow> Inr ([''--group'', grp @ '':'' @ str_int sz] @ p @ ending))
             else (case partitions_slot_a f' wk attr grp ps of
                     Inl e \<Rightarrow> Inl e
                   | Inr pa \<Rightarrow>
                       (case partitions_slot_b f' wk attr grp ps of
                          Inl e \<Rightarrow> Inl e
                        | Inr pb \<Rightarrow>
                            Inr ([''--group'', grp @ ''_a:'' @ str_int sz] @ pa @
                                 [''--group'', grp @ ''_b:'' @ str_int sz] @ pb @
                                 (if slot_mode = 2 then [''--virtual-ab''] else []) @ ending))))"
  have "\<forall>device_name.
     pack_super sparse grp sz slot_mode part_list attr output_dir wk device_name f =
       (f',
        case rest of
          Inl e \<Rightarrow> Inl e
        | Inr r \<Rightarrow>
            Inr ([''lpmake'', ''--metadata-size'', ''65536'', ''-super-name'',
                  (if device_name = [] then ''super'' else device_name), ''-metadata-slots''] @
                 (if slot_mode = 1
                  then [''2'', ''-device'', (if device_name = [] then ''super'' else device_name) @ '':'' @ str_int sz]
                  else [''3'', ''-device'', ''super:'' @ str_int sz]) @ r))"
    unfolding pack_super_def Let_def rest_def f'_def ps_def ending_def
    by (simp split: sum.splits)
  then show ?thesis by blast
qed

lemma partitions_slot_a_all:
  "\<forall>part \<in> set ps. os_path_exists f (wk @ ''/'' @ part @ ''.img'') \<Longrightarrow>
   partitions_slot_a f wk attr grp ps = Inr (concat (map (slot_a_entry f wk attr grp) ps))"
  by (induction ps)
    (auto simp: os_path_exists_def os_path_getsize_def slot_a_entry_def image_length_def)

lemma partitions_slot_b_all:
  "\<forall>part \<in> set ps. os_path_exists f (wk @ part @ ''_b.img'') \<longrightarrow>
       os_path_exists f (wk @ ''/'' @ part @ ''_b.img'') \<Longrightarrow>
   partitions_slot_b f wk attr grp ps = Inr (concat (map (slot_b_entry f wk attr grp) ps))"
  by (induction ps)
    (auto simp: os_path_exists_def os_path_getsize_def slot_b_entry_def image_length_def)

lemma pack_super_slots:
  assumes "slot_mode \<noteq> 1"
    and "files' = fold (rename_slot_a wk) (canonical_parts part_list) f"
    and "\<forall>part \<in> set (canonical_parts part_list). os_path_exists files' (wk @ ''/'' @ part @ ''.img'')"
    and "\<forall>part \<in> set (canonical_parts part_list). os_path_exists files' (wk @ part @ ''_b.img'') \<longrightarrow>
           os_path_exists files' (wk @ ''/'' @ part @ ''_b.img'')"
  shows "pack_super sparse grp sz slot_mode part_list attr output_dir wk device_name f =
     (files',
      Inr ([''lpmake'', ''--metadata-size'', ''65536'', ''-super-name'',
            (if device_name = [] then ''super'' else device_name), ''-metadata-slots'', ''3'',
            ''-device'', ''super:'' @ str_int sz,
            ''--group'', grp @ ''_a:'' @ str_int sz] @
           concat (map (slot_a_entry files' wk attr grp) (canonical_parts part_list)) @
           [''--group'', grp @ ''_b:'' @ str_int sz] @
           concat (map (slot_b_entry files' wk attr grp) (canonical_parts part_list)) @
           (if slot_mode = 2 then [''--virtual-ab''] else []) @
           (if sparse then [''--sparse''] else []) @ [''--out'', output_dir @ ''/super.img'']))"
proof -
  have a: "partitions_slot_a files' wk attr grp (canonical_parts part_list)
      = Inr (concat (map (slot_a_entry files' wk attr grp) (canonical_parts part_list)))"
    using assms(3) by (rule partitions_slot_a_all)
  have b: "partitions_slot_b files' wk attr grp (canonical_parts part_list)
      = Inr (concat (map (slot_b_entry files' wk attr grp) (canonical_parts part_list)))"
    using assms(4) by (rule partitions_slot_b_all)
  show ?thesis
    using assms(1,2) a b by (simp add: pack_super_def Let_def)
qed

lemma demo_slots_canonical: "canonical_parts [''boot'', ''system''] = [''boot'', ''system'']"
  by (simp add: canonical_parts_def strip_slot_def endswith_def)

lemma demo_slots_renamed: "fold (rename_slot_a ''/p/'') [''boot'', ''system''] demo_slots = demo_slots"
  by (simp add: rename_slot_a_def os_path_exists_def demo_slots_def)

lemma str_nat_4096: "str_nat 4096 = ''4096''"
  by (simp add: str_nat.simps digit_char_def)

text \<open>
  Claim C10. In every slot mode but A-only (Virtual-AB and A/B), whenever the images the
  command needs exist, \<^verbatim>\<open>pack_super\<close> emits the command with the device entry
  \<^verbatim>\<open>super:<size>\<close>, whatever the block device name is; the name appears in the
  \<^verbatim>\<open>-super-name\<close> argument only. In every slot mode, the files after the call, an exception
  raised and the rest of the command are the same for every block device name, which
  beyond \<^verbatim>\<open>-super-name\<close> reaches only the device entry of A-only mode.
\<close>

theorem pack_super_device_entry:
  "(\<exists>files' rest. \<forall>device_name.
     pack_super sparse grp sz slot_mode part_list attr output_dir wk device_name f =
       (files',
        case rest of
          Inl e \<Rightarrow> Inl e
        | Inr r \<Rightarrow>
            Inr ([''lpmake'', ''--metadata-size'', ''65536'', ''-super-name'',
                  (if device_name = [] then ''super'' else device_name), ''-metadata-slots''] @
                 (if slot_mode = 1
                  then [''2'', ''-device'', (if device_name = [] then ''super'' else device_name) @ '':'' @ str_int sz]
                  else [''3'', ''-device'', ''super:'' @ str_int sz]) @ r)))
   \<and> (slot_mode \<noteq> 1 \<and>
       (\<forall>part \<in> set (canonical_parts part_list).
          os_path_exists (fold (rename_slot_a wk) (canonical_parts part_list) f) (wk @ ''/'' @ part @ ''.img'')) \<and>
       (\<forall>part \<in> set (canonical_parts part_list).
          os_path_exists (fold (rename_slot_a wk) (canonical_parts part_list) f) (wk @ part @ ''_b.img'') \<longrightarrow>
          os_path_exists (fold (rename_slot_a wk) (canonical_parts part_list) f) (wk @ ''/'' @ part @ ''_b.img''))
       \<longrightarrow>
       pack_super sparse grp sz slot_mode part_list attr output_dir wk device_name f =
         (fold (rename_slot_a wk) (canonical_parts part_list) f,
          Inr ([''lpmake'', ''--metadata-size'', ''65536'', ''-super-name'',
                (if device_name = [] then ''super'' else device_name), ''-metadata-slots'', ''3'',
                ''-device'', ''super:'' @ str_int sz,
                ''--group'', grp @ ''_a:'' @ str_int sz] @
               concat (map (slot_a_entry (fold (rename_slot_a wk) (canonical_parts part_list) f) wk attr grp)
                         (canonical_parts part_list)) @
               [''--group'', grp @ ''_b:'' @ str_int sz] @
               concat (map (slot_b_entry (fold (rename_slot_a wk) (canonical_parts part_list) f) wk attr grp)
                         (canonical_parts part_list)) @
               (if slot_mode = 2 then [''--virtual-ab''] else []) @
               (if sparse then [''--sparse''] else []) @ [''--out'', output_dir @ ''/super.img''])))"
  using pack_super_same_for_all_names [of sparse grp sz slot_mode part_list attr output_dir wk f]
    pack_super_slots [of slot_mode "fold (rename_slot_a wk) (canonical_parts part_list) f" wk part_list f
      sparse grp sz attr output_dir device_name]
  by blast

theorem pack_super_device_entry_witness:
  "pack_super False ''main'' 629145600 2 [''boot'', ''system''] ''readonly'' ''/o'' ''/p/'' ''mydev'' demo_slots =
     (demo_slots,
      Inr [''lpmake'', ''--metadata-size'', ''65536'', ''-super-name'', ''mydev'', ''-metadata-slots'', ''3'',
           ''-device'', ''super:629145600'', ''--group'', ''main_a:629145600'',
           ''--partition'', ''boot_a:readonly:10485760:main_a'', ''--image'', ''boot_a=/p/boot.img'',
           ''--partition'', ''system_a:readonly:524288000:main_a'', ''--image'', ''system_a=/p/system.img'',
           ''--group'', ''main_b:629145600'',
           ''--partition'', ''boot_b:readonly:0:main_b'',
           ''--partition'', ''system_b:readonly:4096:main_b'', ''--image'', ''system_b=/p//system_b.img'',
           ''--virtual-ab'', ''--out'', ''/o/super.img''])"
proof -
  have r: "fold (rename_slot_a ''/p/'') (canonical_parts [''boot'', ''system'']) demo_slots = demo_slots"
    by (simp only: demo_slots_canonical demo_slots_renamed)
  have h1: "(2::int) \<noteq> 1" by simp
  have h2: "\<forall>part \<in> set (canonical_parts [''boot'', ''system'']).
      os_path_exists (fold (rename_slot_a ''/p/'') (canonical_parts [''boot'', ''system'']) demo_slots)
        (''/p/'' @ ''/'' @ part @ ''.img'')"
    unfolding r by (simp add: demo_slots_canonical os_path_exists_def demo_slots_def)
  have h3: "\<forall>part \<in> set (canonical_parts [''boot'', ''system'']).
      os_path_exists (fold (rename_slot_a ''/p/'') (canonical_parts [''boot'', ''system'']) demo_slots)
        (''/p/'' @ part @ ''_b.img'') \<longrightarrow>
      os_path_exists (fold (rename_slot_a ''/p/'') (canonical_parts [''boot'', ''system'']) demo_slots)
        (''/p/'' @ ''/'' @ part @ ''_b.img'')"
    unfolding r by (simp add: demo_slots_canonical os_path_exists_def demo_slots_def)
  from pack_super_device_entry [of False "''main''" 629145600 2 "[''boot'', ''system'']" "''readonly''" "''/o''"
      "''/p/''" demo_slots "''mydev''"] h1 h2 h3
  have "pack_super False ''main'' 629145600 2 [''boot'', ''system''] ''readonly'' ''/o'' ''/p/'' ''mydev'' demo_slots =
         (fold (rename_slot_a ''/p/'') (canonical_parts [''boot'', ''system'']) demo_slots,
          Inr ([''lpmake'', ''--metadata-size'', ''65536'', ''-super-name'',
                (if ''mydev'' = [] then ''super'' else ''mydev''), ''-metadata-slots'', ''3'',
                ''-device'', ''super:'' @ str_int 629145600,
                ''--group'', ''main'' @ ''_a:'' @ str_int 629145600] @
               concat (map (slot_a_entry (fold (rename_slot_a ''/p/'') (canonical_parts [''boot'', ''system'']) demo_slots) ''/p/'' ''readonly'' ''main'')
                         (canonical_parts [''boot'', ''system''])) @
               [''--group'', ''main'' @ ''_b:'' @ str_int 629145600] @
               concat (map (slot_b_entry (fold (rename_slot_a ''/p/'') (canonical_parts [''boot'', ''system'']) demo_slots) ''/p/'' ''readonly'' ''main'')
                         (canonical_parts [''boot'', ''system''])) @
               (if (2::int) = 2 then [''--virtual-ab''] else []) @
               (if False then [''--sparse''] else []) @ [''--out'', ''/o'' @ ''/super.img'']))"
    by blast
  then show ?thesis
    unfolding r
    by (simp add: demo_slots_canonical slot_a_entry_def slot_b_entry_def image_length_def
        os_path_exists_def demo_slots_def str_nat_10MiB str_nat_500MiB str_int_600MiB str_nat_4096)
qed

section \<open>Properties of the resize list patch\<close>

















lemma digit_char_set: "d < 10 \<Longrightarrow> digit_char d \<in> set ''0123456789''"
  unfolding digit_char_def by (rule nth_mem) simp

lemma str_nat_digits: "set (str_nat n) \<subseteq> set ''0123456789''"
proof (induction n rule: str_nat.induct)
  case (1 n)
  show ?case
  proof (cases "n < 10")
    case True
    then show ?thesis using digit_char_set [of n] by (subst str_nat.simps) simp
  next
    case False
    have "n mod 10 < 10" by simp
    then have "digit_char (n mod 10) \<in> set ''0123456789''" by (rule digit_char_set)
    then show ?thesis using False 1 by (subst str_nat.simps) simp
  qed
qed







section \<open>Properties of the reassembly\<close>

lemma digit_val_char: "d < 10 \<Longrightarrow> digit_val (digit_char d) = d"
proof -
  assume "d < 10"
  then have "d = 0 \<or> d = 1 \<or> d = 2 \<or> d = 3 \<or> d = 4 \<or> d = 5 \<or> d = 6 \<or> d = 7 \<or> d = 8 \<or> d = 9"
    by arith
  then show ?thesis
    by (elim disjE) (simp_all add: digit_val_def digit_char_def)
qed

lemma str_nat_value: "foldl (\<lambda>acc c. 10 * acc + digit_val c) 0 (str_nat n) = n"
proof (induction n rule: str_nat.induct)
  case (1 n)
  show ?case
  proof (cases "n < 10")
    case True
    then show ?thesis by (subst str_nat.simps) (simp add: digit_val_char)
  next
    case False
    then show ?thesis using 1 by (subst str_nat.simps) (simp add: digit_val_char)
  qed
qed

lemma str_nat_inj: "str_nat n = str_nat m \<Longrightarrow> n = m"
  by (metis str_nat_value)

lemma str_nat_no_slash: "CHR ''/'' \<notin> set (str_nat n)"
  using str_nat_digits [of n] by auto

lemma norm_path_plain: "CHR ''/'' \<notin> set s \<Longrightarrow> norm_path s = s"
  by (induction s rule: norm_path.induct) auto

lemma norm_path_append: "CHR ''/'' \<notin> set s \<Longrightarrow> norm_path (p @ s) = norm_path p @ s"
proof (induction p rule: norm_path.induct)
  case (1 a b cs)
  then show ?case by simp
next
  case (2 a)
  then show ?case by (cases s) (auto simp: norm_path_plain)
next
  case 3
  then show ?case by (simp add: norm_path_plain)
qed

lemma segment_norm:
  "norm_path (segment wk i n) = norm_path (wk @ ''/'' @ i @ ''.new.dat'') @ ''.'' @ str_nat n"
  using norm_path_append [of "''.'' @ str_nat n" "wk @ ''/'' @ i @ ''.new.dat''"] str_nat_no_slash [of n]
  by (simp add: segment_def)

lemma segment_inj: "norm_path (segment wk i n) = norm_path (segment wk i m) \<Longrightarrow> n = m"
  by (simp add: segment_norm str_nat_inj)

lemma segment_not_dat: "norm_path (segment wk i n) \<noteq> norm_path (wk @ ''/'' @ i @ ''.new.dat'')"
  by (simp add: segment_norm)


lemma merge_segment_files:
  "files (merge_segment E wk i n w) =
     (case files w (norm_path (segment wk i n)) of
        None \<Rightarrow> files w
      | Some bytes \<Rightarrow>
          (files w)(norm_path (wk @ ''/'' @ i @ ''.new.dat'') \<mapsto>
                      (case files w (norm_path (wk @ ''/'' @ i @ ''.new.dat'')) of
                         None \<Rightarrow> [] | Some old \<Rightarrow> old) @ bytes,
                    norm_path (segment wk i n) := None))"
  by (simp add: merge_segment_def append_bytes_def print_def split: option.splits)

lemma segments_bytes_cong:
  "(\<And>n. n \<in> set ns \<Longrightarrow> f (norm_path (segment wk i n)) = g (norm_path (segment wk i n))) \<Longrightarrow>
   segments_bytes f wk i ns = segments_bytes g wk i ns"
  unfolding segments_bytes_def by (induction ns) auto

lemma merge_fold:
  "distinct ns \<Longrightarrow> files w (norm_path (wk @ ''/'' @ i @ ''.new.dat'')) = Some old \<Longrightarrow>
   files (fold (merge_segment E wk i) ns w) (norm_path (wk @ ''/'' @ i @ ''.new.dat''))
     = Some (old @ segments_bytes (files w) wk i ns) \<and>
   (\<forall>n \<in> set ns. files (fold (merge_segment E wk i) ns w) (norm_path (segment wk i n)) = None) \<and>
   (\<forall>p. p \<noteq> norm_path (wk @ ''/'' @ i @ ''.new.dat'') \<longrightarrow>
        (\<forall>n \<in> set ns. p \<noteq> norm_path (segment wk i n)) \<longrightarrow>
        files (fold (merge_segment E wk i) ns w) p = files w p)"
proof (induction ns arbitrary: w old)
  case Nil
  then show ?case by (simp add: segments_bytes_def)
next
  case (Cons n ns)
  let ?D = "norm_path (wk @ ''/'' @ i @ ''.new.dat'')"
  let ?S = "\<lambda>n. norm_path (segment wk i n)"
  let ?w1 = "merge_segment E wk i n w"
  let ?b = "case files w (?S n) of None \<Rightarrow> [] | Some bytes \<Rightarrow> bytes"
  have SD: "?S m \<noteq> ?D" for m by (rule segment_not_dat)
  have d1: "files ?w1 ?D = Some (old @ ?b)"
    using Cons.prems(2) SD [of n] by (simp add: merge_segment_files split: option.splits)
  have s1: "files ?w1 (?S n) = None"
    by (simp add: merge_segment_files split: option.splits)
  have f1: "files ?w1 p = files w p" if "p \<noteq> ?D" "p \<noteq> ?S n" for p
    using that by (simp add: merge_segment_files split: option.splits)
  have nn: "n \<notin> set ns" and dn: "distinct ns" using Cons.prems(1) by simp_all
  have ne: "?S m \<noteq> ?S n" if "m \<in> set ns" for m
    using that nn segment_inj [of wk i m n] by auto
  note IH = Cons.IH [OF dn d1]
  have seg: "segments_bytes (files ?w1) wk i ns = segments_bytes (files w) wk i ns"
  proof (rule segments_bytes_cong)
    fix m assume "m \<in> set ns"
    then show "files ?w1 (?S m) = files w (?S m)"
      using f1 [of "?S m"] SD [of m] ne [of m] by blast
  qed
  have c1: "files (fold (merge_segment E wk i) (n # ns) w) ?D
      = Some (old @ segments_bytes (files w) wk i (n # ns))"
    using IH seg by (simp add: segments_bytes_def)
  have c2: "files (fold (merge_segment E wk i) (n # ns) w) (?S m) = None" if "m \<in> set (n # ns)" for m
  proof (cases "m \<in> set ns")
    case True
    then show ?thesis using IH by simp
  next
    case False
    then have m: "m = n" using that by simp
    have "files (fold (merge_segment E wk i) ns ?w1) (?S n) = files ?w1 (?S n)"
      using IH SD [of n] ne by (metis (no_types, lifting))
    then show ?thesis using m s1 by simp
  qed
  have c3: "files (fold (merge_segment E wk i) (n # ns) w) p = files w p"
    if "p \<noteq> ?D" "\<forall>m \<in> set (n # ns). p \<noteq> ?S m" for p
  proof -
    have "files (fold (merge_segment E wk i) ns ?w1) p = files ?w1 p"
      using IH that by simp
    then show ?thesis using f1 [of p] that by simp
  qed
  show ?case using c1 c2 c3 by blast
qed

text \<open>
  Claim C9. Reassembly does nothing unless \<^verbatim>\<open><name>.new.dat.1\<close> exists. When it does,
  \<^verbatim>\<open><name>.new.dat\<close> ends up holding what it held before, followed by the bytes of the
  existing segments \<^verbatim>\<open>.0\<close> to \<^verbatim>\<open>.99\<close> in ascending order of index; each of these segments is
  removed as soon as it is appended and none is left; a segment of index 100 or more, and
  every other file, is as it was.
\<close>

theorem reassemble_segments:
  "(\<not> os_access (files w) (segment wk i 1) \<longrightarrow> reassemble E wk i w = w) \<and>
   (os_access (files w) (segment wk i 1) \<longrightarrow>
      files (reassemble E wk i w) (norm_path (wk @ ''/'' @ i @ ''.new.dat''))
        = Some ((case files w (norm_path (wk @ ''/'' @ i @ ''.new.dat'')) of
                   None \<Rightarrow> [] | Some old \<Rightarrow> old) @
                segments_bytes (files w) wk i [0..<100]) \<and>
      (\<forall>n < 100. files (reassemble E wk i w) (norm_path (segment wk i n)) = None) \<and>
      (\<forall>n \<ge> 100. files (reassemble E wk i w) (norm_path (segment wk i n))
                    = files w (norm_path (segment wk i n))) \<and>
      (\<forall>p. p \<noteq> norm_path (wk @ ''/'' @ i @ ''.new.dat'') \<longrightarrow>
           (\<forall>n < 100. p \<noteq> norm_path (segment wk i n)) \<longrightarrow>
           files (reassemble E wk i w) p = files w p))"
proof (intro conjI impI)
  assume "\<not> os_access (files w) (segment wk i 1)"
  then show "reassemble E wk i w = w" by (simp add: reassemble_def)
next
  let ?D = "norm_path (wk @ ''/'' @ i @ ''.new.dat'')"
  let ?old = "case files w ?D of None \<Rightarrow> [] | Some old \<Rightarrow> old"
  let ?w0 = "w\<lparr>files := append_bytes (files w) (wk @ ''/'' @ i @ ''.new.dat'') []\<rparr>"
  assume a: "os_access (files w) (segment wk i 1)"
  then have r: "reassemble E wk i w = fold (merge_segment E wk i) [0..<100] ?w0"
    by (simp add: reassemble_def)
  have d0: "files ?w0 ?D = Some ?old"
    by (simp add: append_bytes_def)
  have f0: "files ?w0 p = files w p" if "p \<noteq> ?D" for p
    using that by (simp add: append_bytes_def)
  have s0: "files ?w0 (norm_path (segment wk i n)) = files w (norm_path (segment wk i n))" for n
    using f0 segment_not_dat [of wk i n] by simp
  have seg: "segments_bytes (files ?w0) wk i [0..<100] = segments_bytes (files w) wk i [0..<100]"
    by (rule segments_bytes_cong) (rule s0)
  note M = merge_fold [of "[0..<100]" ?w0 wk i ?old E, OF distinct_upt d0, folded r]
  show "files (reassemble E wk i w) ?D = Some (?old @ segments_bytes (files w) wk i [0..<100])"
    using M seg by simp
  show "\<forall>n < 100. files (reassemble E wk i w) (norm_path (segment wk i n)) = None"
    using M by simp
  show p: "\<forall>p. p \<noteq> ?D \<longrightarrow> (\<forall>n < 100. p \<noteq> norm_path (segment wk i n)) \<longrightarrow>
      files (reassemble E wk i w) p = files w p"
    using M f0 by simp
  show "\<forall>n \<ge> 100. files (reassemble E wk i w) (norm_path (segment wk i n))
      = files w (norm_path (segment wk i n))"
  proof (intro allI impI)
    fix n :: nat
    assume n: "100 \<le> n"
    have "norm_path (segment wk i n) \<noteq> norm_path (segment wk i m)" if "m < 100" for m
      using that n segment_inj [of wk i n m] by auto
    then show "files (reassemble E wk i w) (norm_path (segment wk i n))
        = files w (norm_path (segment wk i n))"
      using p segment_not_dat [of wk i n] by simp
  qed
qed


lemma demo_segments_bytes: "segments_bytes (files demo_segments) ''/p'' ''system'' [0..<100] = ''abcd''"
  by (simp add: segments_bytes_def demo_segments_def segment_def upt_rec str_nat.simps digit_char_def)

theorem reassemble_segments_witness:
  "os_access (files demo_segments) (segment ''/p'' ''system'' 1) \<and>
   files (reassemble null_env ''/p'' ''system'' demo_segments) ''/p/system.new.dat'' = Some ''abcd'' \<and>
   files (reassemble null_env ''/p'' ''system'' demo_segments) ''/p/system.new.dat.1'' = None \<and>
   files (reassemble null_env ''/p'' ''system'' demo_segments) ''/p/system.new.dat.100'' = Some ''zz''"
proof -
  have a: "os_access (files demo_segments) (segment ''/p'' ''system'' 1)"
    by (simp add: os_access_def demo_segments_def segment_def str_nat.simps digit_char_def)
  have d: "files demo_segments (norm_path (''/p'' @ ''/'' @ ''system'' @ ''.new.dat'')) = None"
    by (simp add: demo_segments_def)
  have s1: "norm_path (segment ''/p'' ''system'' 1) = ''/p/system.new.dat.1''"
    by (simp add: segment_def str_nat.simps digit_char_def)
  have s100: "norm_path (segment ''/p'' ''system'' 100) = ''/p/system.new.dat.100''"
    by (simp add: segment_def str_nat.simps digit_char_def)
  have z: "files demo_segments ''/p/system.new.dat.100'' = Some ''zz''"
    by (simp add: demo_segments_def)
  from reassemble_segments [of demo_segments "''/p''" "''system''" null_env] a
  have r: "files (reassemble null_env ''/p'' ''system'' demo_segments) (norm_path (''/p'' @ ''/'' @ ''system'' @ ''.new.dat''))
        = Some ((case files demo_segments (norm_path (''/p'' @ ''/'' @ ''system'' @ ''.new.dat'')) of
                   None \<Rightarrow> [] | Some old \<Rightarrow> old) @
                segments_bytes (files demo_segments) ''/p'' ''system'' [0..<100])"
    and r1: "\<forall>n < 100. files (reassemble null_env ''/p'' ''system'' demo_segments) (norm_path (segment ''/p'' ''system'' n)) = None"
    and r2: "\<forall>n \<ge> 100. files (reassemble null_env ''/p'' ''system'' demo_segments) (norm_path (segment ''/p'' ''system'' n))
                    = files demo_segments (norm_path (segment ''/p'' ''system'' n))"
    by blast+
  have c1: "files (reassemble null_env ''/p'' ''system'' demo_segments) ''/p/system.new.dat'' = Some ''abcd''"
    using r unfolding d demo_segments_bytes by simp
  have c2: "files (reassemble null_env ''/p'' ''system'' demo_segments) ''/p/system.new.dat.1'' = None"
    using r1 [rule_format, of 1] s1 by simp
  have c3: "files (reassemble null_env ''/p'' ''system'' demo_segments) ''/p/system.new.dat.100'' = Some ''zz''"
    using r2 [rule_format, of 100] s100 z by simp
  show ?thesis using a c1 c2 c3 by blast
qed

section \<open>Properties of the Compressed-Transfer Pipeline\<close>

lemma print_simps:
  "files (print l w) = files w" "trace (print l w) = trace w" "out (print l w) = out w @ [l]"
  by (simp_all add: print_def)

lemma run_simps:
  "files (run E iv w) = effect E iv (files w)" "trace (run E iv w) = trace w @ [iv]"
  by (simp_all add: run_def)









lemma remove_consumed_present:
  assumes "f (norm_path dat) \<noteq> None" and "f (norm_path tf) \<noteq> None"
    and "norm_path tf \<noteq> norm_path dat"
  shows "remove_consumed f dat tf patch =
     (let f2 = f(norm_path dat := None, norm_path tf := None)
      in if f2 (norm_path patch) = Some [] then f2(norm_path patch := None) else f2)"
  using assms
  by (auto simp: remove_consumed_def os_remove_def os_path_getsize_def Let_def split: option.splits)

lemma to_raw_from_dat:
  assumes "tf = transfer_list_path E wk (stem (os_path_basename i))"
    and "dat = wk @ ''/'' @ i"
    and "img = wk @ ''/'' @ stem (os_path_basename i) @ ''.img''"
    and "patch = wk @ ''/'' @ stem (os_path_basename i) @ ''.patch.dat''"
    and "w0 = print (lang E ''text79'' @ dat) (print (''[dat->raw]'' @ i) w)"
    and "os_path_exists (files w) wk"
  shows "(\<not> os_access (files w) tf \<longrightarrow>
           convert_item E wk ''dat'' ''raw'' i w = Next (print (''transferfile'' @ lang E ''text84'') w0))
     \<and> (os_access (files w) tf \<and> (\<exists>n. os_path_getsize (files w) dat = Inr n \<and> n \<noteq> 0) \<and>
         os_access (effect E (Library ''Sdat2img'' [tf, dat, img]) (files w)) img \<and>
         os_access (effect E (Library ''Sdat2img'' [tf, dat, img]) (files w)) dat \<and>
         os_access (effect E (Library ''Sdat2img'' [tf, dat, img]) (files w)) tf \<and>
         norm_path tf \<noteq> norm_path dat \<longrightarrow>
           (\<exists>w'. convert_item E wk ''dat'' ''raw'' i w = Next w' \<and>
              trace w' = trace w @ [Library ''Sdat2img'' [tf, dat, img]] \<and>
              files w' =
                (let f2 = (effect E (Library ''Sdat2img'' [tf, dat, img]) (files w))
                            (norm_path dat := None, norm_path tf := None)
                 in if f2 (norm_path patch) = Some [] then f2(norm_path patch := None) else f2)))"
proof (intro conjI impI)
  have d: "decompress_source E wk ''dat'' i v = v" for v
    by (simp add: decompress_source_def)
  assume "\<not> os_access (files w) tf"
  then show "convert_item E wk ''dat'' ''raw'' i w = Next (print (''transferfile'' @ lang E ''text84'') w0)"
    using assms by (simp add: convert_item_def to_raw_def Let_def d print_simps)
next
  have d: "decompress_source E wk ''dat'' i v = v" for v
    by (simp add: decompress_source_def)
  let ?f1 = "effect E (Library ''Sdat2img'' [tf, dat, img]) (files w)"
  assume a: "os_access (files w) tf \<and> (\<exists>n. os_path_getsize (files w) dat = Inr n \<and> n \<noteq> 0) \<and>
         os_access ?f1 img \<and> os_access ?f1 dat \<and> os_access ?f1 tf \<and> norm_path tf \<noteq> norm_path dat"
  then obtain n where n: "os_path_getsize (files w) dat = Inr n" "n \<noteq> 0" by blast
  have rc: "remove_consumed ?f1 dat tf patch =
     (let f2 = ?f1(norm_path dat := None, norm_path tf := None)
      in if f2 (norm_path patch) = Some [] then f2(norm_path patch := None) else f2)"
    using a by (intro remove_consumed_present) (simp_all add: os_access_def)
  have "convert_item E wk ''dat'' ''raw'' i w
      = Next ((run E (Library ''Sdat2img'' [tf, dat, img]) w0)
               \<lparr>files := remove_consumed ?f1 dat tf patch\<rparr>)"
    using assms a n
    by (simp add: convert_item_def to_raw_def Let_def d print_simps run_simps)
  then show "\<exists>w'. convert_item E wk ''dat'' ''raw'' i w = Next w' \<and>
              trace w' = trace w @ [Library ''Sdat2img'' [tf, dat, img]] \<and>
              files w' =
                (let f2 = ?f1(norm_path dat := None, norm_path tf := None)
                 in if f2 (norm_path patch) = Some [] then f2(norm_path patch := None) else f2)"
    using rc assms(5) by (simp add: run_simps print_simps)
qed


lemma demo_stem: "stem (os_path_basename ''system.new.dat'') = ''system''"
  by (simp add: stem_def os_path_basename_def)

lemma demo_tf: "transfer_list_path replay_env ''/o/'' ''system'' = ''/o/system.transfer.list''"
  by (simp add: transfer_list_path_def replay_env_def null_env_def os_path_dirname_def Let_def)

lemma replay_effect:
  "effect replay_env (Library ''Sdat2img'' [t, d, ''/o//system.img'']) f = f(''/o/system.img'' \<mapsto> ''image'')"
  by (simp add: replay_env_def null_env_def)

lemma to_raw_demo:
  "files (world_of (convert_item replay_env ''/o/'' ''dat'' ''raw'' ''system.new.dat'' demo_transfer))
     = [''/o/'' \<mapsto> [], ''/o/system.img'' \<mapsto> ''image'', ''/o/system.patch.dat'' \<mapsto> ''patch'']"
proof -
  let ?w = demo_transfer
  let ?tf = "''/o/system.transfer.list''" and ?dat = "''/o//system.new.dat''"
  let ?img = "''/o//system.img''" and ?patch = "''/o//system.patch.dat''"
  have h1: "?tf = transfer_list_path replay_env ''/o/'' (stem (os_path_basename ''system.new.dat''))"
    by (simp only: demo_stem demo_tf)
  have h2: "?dat = ''/o/'' @ ''/'' @ ''system.new.dat''" by simp
  have h3: "?img = ''/o/'' @ ''/'' @ stem (os_path_basename ''system.new.dat'') @ ''.img''"
    by (simp add: demo_stem)
  have h4: "?patch = ''/o/'' @ ''/'' @ stem (os_path_basename ''system.new.dat'') @ ''.patch.dat''"
    by (simp add: demo_stem)
  have h6: "os_path_exists (files ?w) ''/o/''"
    by (simp add: os_path_exists_def demo_transfer_def)
  have a1: "os_access (files ?w) ?tf"
    by (simp add: os_access_def demo_transfer_def)
  have a2: "\<exists>n. os_path_getsize (files ?w) ?dat = Inr n \<and> n \<noteq> 0"
    by (simp add: os_path_getsize_def demo_transfer_def)
  have a3: "os_access (effect replay_env (Library ''Sdat2img'' [?tf, ?dat, ?img]) (files ?w)) ?img"
    "os_access (effect replay_env (Library ''Sdat2img'' [?tf, ?dat, ?img]) (files ?w)) ?dat"
    "os_access (effect replay_env (Library ''Sdat2img'' [?tf, ?dat, ?img]) (files ?w)) ?tf"
    by (simp_all add: replay_effect os_access_def demo_transfer_def)
  have a4: "norm_path ?tf \<noteq> norm_path ?dat" by simp
  from to_raw_from_dat [OF h1 h2 h3 h4 refl h6] a1 a2 a3 a4
  obtain w' where w': "convert_item replay_env ''/o/'' ''dat'' ''raw'' ''system.new.dat'' ?w = Next w'"
    "files w' =
       (let f2 = (effect replay_env (Library ''Sdat2img'' [?tf, ?dat, ?img]) (files ?w))
                   (norm_path ?dat := None, norm_path ?tf := None)
        in if f2 (norm_path ?patch) = Some [] then f2(norm_path ?patch := None) else f2)"
    by blast
  have "files w' = [''/o/'' \<mapsto> [], ''/o/system.img'' \<mapsto> ''image'', ''/o/system.patch.dat'' \<mapsto> ''patch'']"
    unfolding w'(2) by (auto simp: replay_effect demo_transfer_def Let_def fun_upd_def)
  then show ?thesis by (simp add: w'(1) world_of_def)
qed

lemma to_sparse_demo:
  "files (world_of (convert_item replay_env ''/o/'' ''dat'' ''sparse'' ''system.new.dat'' demo_transfer))
     = [''/o/'' \<mapsto> [], ''/o/system.img'' \<mapsto> ''image'']"
proof -
  have tf: "transfer_list_path replay_env ''/o/'' (stem (os_path_basename ''system.new.dat''))
      = ''/o/system.transfer.list''"
    by (simp only: demo_stem demo_tf)
  have e: "effect replay_env (Library ''Sdat2img'' [t, d, ''/o//system.img'']) f = f(''/o/system.img'' \<mapsto> ''image'')" for t d f
    by (rule replay_effect)
  have s: "effect replay_env (Subprocess exe) f = f" for exe f
    by (simp add: replay_env_def null_env_def)
  show ?thesis
    by (auto simp: convert_item_def to_sparse_def Let_def decompress_source_def demo_stem demo_tf
        print_simps run_simps e s os_access_def os_path_getsize_def os_remove_def os_path_exists_def
        img2simg_def call_def run_def world_of_def demo_transfer_def print_def fun_upd_def
        split: sum.splits)
qed

text \<open>
  Claim C4. The claim is what the sibling paths do, and the \<^verbatim>\<open>raw\<close> branch of
  \<^verbatim>\<open>conversion\<close> misses it: with \<^verbatim>\<open>system.new.dat\<close>, \<^verbatim>\<open>system.transfer.list\<close> and a patch
  file of five bytes, converting \<^verbatim>\<open>dat\<close> to \<^verbatim>\<open>raw\<close> replays the list, deletes the data file
  and the list and leaves \<^verbatim>\<open>system.patch.dat\<close> behind, because the removal is gated by
  \<^verbatim>\<open>if not os.path.getsize(...)\<close>; converting the same files from \<^verbatim>\<open>dat\<close> to \<^verbatim>\<open>sparse\<close>
  deletes the patch file.
\<close>

theorem convert_dat_to_raw_keeps_patch:
  "files (world_of (convert_item replay_env ''/o/'' ''dat'' ''raw'' ''system.new.dat'' demo_transfer))
     = [''/o/'' \<mapsto> [], ''/o/system.img'' \<mapsto> ''image'', ''/o/system.patch.dat'' \<mapsto> ''patch'']
   \<and> files (world_of (convert_item replay_env ''/o/'' ''dat'' ''sparse'' ''system.new.dat'' demo_transfer))
     = [''/o/'' \<mapsto> [], ''/o/system.img'' \<mapsto> ''image'']"
  using to_raw_demo to_sparse_demo by (rule conjI)

end
